theory Spec2Isabelle
  imports Main "HOL-Library.Word"
begin

section \<open>The double-signing guard of types/priv\_validator.go\<close>

text \<open>
  A shallow embedding of \<^verbatim>\<open>PrivValidatorFS\<close> and its methods. Every method with a
  pointer receiver takes the validator and the world and gives both back. The mutex
  \<^verbatim>\<open>mtx\<close> is left out: each method runs as one step. A panic and a process exit are
  outcomes of their own, holding the validator and the world as the panic found them.
  The getters, \<^verbatim>\<open>String\<close>, \<^verbatim>\<open>GenPubkey\<close>, \<^verbatim>\<open>LoadOrGenPrivValidatorFS\<close>, the stub
  \<^verbatim>\<open>GetPrikeyFromConfigServer\<close> and the sorting of validators by address are not needed
  below and are left out.

  The errors keep the messages of the code. The spec names them: "Height regression" is
  HeightRegression, "Round regression" RoundRegression, "Step regression" StepRegression,
  "No LastSignature found" NoPriorSignature, "Conflicting data" ConflictingSignRequest;
  an error of the Signer is SigningBackendError; a panic in \<^verbatim>\<open>save\<close> is PersistenceError.
\<close>

subsection \<open>Go values\<close>

type_synonym byte = "8 word"
type_synonym int8 = "8 word"
type_synonym int64 = "64 word"

text \<open>Go's \<^verbatim>\<open>int\<close> on a 64-bit platform. Heights, rounds and steps are only compared
  (signed) and copied, never added.\<close>
type_synonym go_int = "64 word"

text \<open>A byte slice: \<open>None\<close> is the nil slice, which \<^verbatim>\<open>!= nil\<close> tells from an empty one
  and \<^verbatim>\<open>bytes.Equal\<close> does not.\<close>
type_synonym bytes = "byte list option"

text \<open>An \<^verbatim>\<open>error\<close> is its message, the only thing the code reads of it (through
  \<^verbatim>\<open>%v\<close>); \<^verbatim>\<open>errors.New m\<close> is \<open>m\<close>, a nil error is \<open>None\<close>.\<close>
type_synonym error = string

text \<open>go-crypto wraps a key or a signature around an inner value; \<^verbatim>\<open>Empty()\<close> says the
  inner value is nil, as in \<^verbatim>\<open>crypto.Signature{}\<close>.\<close>
type_synonym crypto_Signature = "byte list option"
type_synonym crypto_PrivKey = "byte list option"
type_synonym crypto_PubKey = "byte list option"

definition Empty :: "'a option \<Rightarrow> bool" where
  "Empty k = (k = None)"

definition bytes_Equal :: "bytes \<Rightarrow> bytes \<Rightarrow> bool" where
  "bytes_Equal a b = ((case a of None \<Rightarrow> [] | Some x \<Rightarrow> x) = (case b of None \<Rightarrow> [] | Some y \<Rightarrow> y))"

datatype fatal =
    PanicSanity string
  | PanicCrisis error
  | GoPanic string
  | Exit string

text \<open>A call returns, or it panics (or exits) and leaves the state \<open>'s\<close> it had reached;
  a function without effects has \<open>unit\<close> there.\<close>
datatype ('a, 's) outcome = Return 'a | Fatal fatal 's

subsection \<open>Steps\<close>

definition stepNone :: int8 where "stepNone = 0"
definition stepPropose :: int8 where "stepPropose = 1"
definition stepPrevote :: int8 where "stepPrevote = 2"
definition stepPrecommit :: int8 where "stepPrecommit = 3"

subsection \<open>Messages\<close>

text \<open>
  \<^verbatim>\<open>Vote\<close>, \<^verbatim>\<open>Proposal\<close> and \<^verbatim>\<open>Heartbeat\<close> are declared in other files. The records keep
  the fields this file reads or writes and gather the remaining content in \<open>Rest\<close>.
\<close>

record Heartbeat =
  Signature :: crypto_Signature
  Rest :: "byte list"

record Proposal =
  Height :: int64
  Round :: go_int
  Signature :: crypto_Signature
  Rest :: "byte list"

record Vote =
  Height :: int64
  Round :: go_int
  Type :: byte
  Signature :: crypto_Signature
  Rest :: "byte list"

subsection \<open>Signer\<close>

text \<open>\<^verbatim>\<open>Sign(msg) (crypto.Signature, error)\<close>: both results are kept, since
  \<^verbatim>\<open>SignHeartbeat\<close> stores the signature whatever the error.\<close>
type_synonym Signer = "bytes \<Rightarrow> crypto_Signature \<times> error option"

record DefaultSigner =
  PrivKey :: crypto_PrivKey

definition NewDefaultSigner :: "crypto_PrivKey \<Rightarrow> DefaultSigner" where
  "NewDefaultSigner priv = \<lparr>DefaultSigner.PrivKey = priv\<rparr>"

subsection \<open>The validator\<close>

text \<open>The exported fields with a JSON name are the parent record: they are what
  \<^verbatim>\<open>json.Marshal\<close> writes and \<^verbatim>\<open>json.Unmarshal\<close> fills.\<close>

record PrivValidatorJSON =
  Address :: bytes
  PubKey :: crypto_PubKey
  LastHeight :: int64
  LastRound :: go_int
  LastStep :: int8
  LastSignature :: crypto_Signature
  LastSignBytes :: bytes
  PrivKey :: crypto_PrivKey

record PrivValidatorFS = PrivValidatorJSON +
  Signer :: Signer
  filePath :: string
  oldPrivKey :: crypto_PrivKey

subsection \<open>The world outside the validator\<close>

text \<open>
  The files on disk, the error (if any) the next atomic write to a path reports, and the
  messages handed to \<^verbatim>\<open>Signer.Sign\<close> so far, in order.
\<close>

record world =
  files :: "string \<Rightarrow> byte list option"
  write_error :: "string \<Rightarrow> error option"
  signer_calls :: "bytes list"

text \<open>
  The collaborators that live in other files or libraries: the vote type constants, the
  canonical encoder \<^verbatim>\<open>SignBytes\<close>, the JSON codec of the canonical vote and proposal
  (\<^verbatim>\<open>json.Marshal\<close> there drops its error, so a failed encoding is the nil slice), the
  canonical time of \<^verbatim>\<open>time.Now()\<close>, the JSON codec of the validator file, and go-crypto.
\<close>

record ('cv, 'cp, 't) ext =
  VoteTypePrevote :: byte
  VoteTypePrecommit :: byte
  SignBytesVote :: "string \<Rightarrow> Vote \<Rightarrow> bytes"
  SignBytesProposal :: "string \<Rightarrow> Proposal \<Rightarrow> bytes"
  SignBytesHeartbeat :: "string \<Rightarrow> Heartbeat \<Rightarrow> bytes"
  UnmarshalVote :: "bytes \<Rightarrow> error + 'cv"
  MarshalVote :: "'cv \<Rightarrow> bytes"
  setVoteTimestamp :: "'t \<Rightarrow> 'cv \<Rightarrow> 'cv"
  UnmarshalProposal :: "bytes \<Rightarrow> error + 'cp"
  MarshalProposal :: "'cp \<Rightarrow> bytes"
  setProposalTimestamp :: "'t \<Rightarrow> 'cp \<Rightarrow> 'cp"
  Now :: 't
  json_Marshal :: "PrivValidatorJSON \<Rightarrow> error + byte list"
  json_Unmarshal :: "byte list \<Rightarrow> error + PrivValidatorJSON"
  PrivKey_PubKey :: "byte list \<Rightarrow> crypto_PubKey"
  PubKey_Address :: "crypto_PubKey \<Rightarrow> bytes"
  PrivKey_Sign :: "crypto_PrivKey \<Rightarrow> bytes \<Rightarrow> crypto_Signature"

text \<open>Modelled from the spec: \<^verbatim>\<open>cmn.WriteFileAtomic\<close> (tmlibs) replaces the whole file or,
  on an error, leaves it as it was.\<close>
definition WriteFileAtomic :: "string \<Rightarrow> byte list \<Rightarrow> world \<Rightarrow> error + world" where
  "WriteFileAtomic path data w =
     (case write_error w path of
        Some err \<Rightarrow> Inl err
      | None \<Rightarrow> Inr (w\<lparr>files := (files w)(path := Some data)\<rparr>))"

subsection \<open>voteToStep\<close>

definition voteToStep :: "('cv, 'cp, 't) ext \<Rightarrow> Vote \<Rightarrow> (int8, unit) outcome" where
  "voteToStep X vote =
     (if Type vote = VoteTypePrevote X then Return stepPrevote
      else if Type vote = VoteTypePrecommit X then Return stepPrecommit
      else Fatal (PanicSanity ''Unknown vote type'') ())"

subsection \<open>DefaultSigner.Sign\<close>

definition DefaultSigner_Sign :: "('cv, 'cp, 't) ext \<Rightarrow> DefaultSigner \<Rightarrow> Signer" where
  "DefaultSigner_Sign X ds msg = (PrivKey_Sign X (DefaultSigner.PrivKey ds) msg, None)"

subsection \<open>Creating and loading\<close>

text \<open>\<open>privKey\<close> is the inner key \<^verbatim>\<open>crypto.GenPrivKeyEd25519()\<close> drew.\<close>
definition GenPrivValidatorFS ::
  "('cv, 'cp, 't) ext \<Rightarrow> byte list \<Rightarrow> string \<Rightarrow> PrivValidatorFS" where
  "GenPrivValidatorFS X privKey path =
     \<lparr>Address = PubKey_Address X (PrivKey_PubKey X privKey),
      PubKey = PrivKey_PubKey X privKey,
      LastHeight = 0,
      LastRound = 0,
      LastStep = stepNone,
      LastSignature = None,
      LastSignBytes = None,
      PrivKey = Some privKey,
      Signer = DefaultSigner_Sign X (NewDefaultSigner (Some privKey)),
      filePath = path,
      oldPrivKey = Some privKey\<rparr>"

text \<open>\<open>signerFunc\<close> sees the validator as loaded so far, through its exported fields.
  A file without a private key makes \<^verbatim>\<open>privVal.PrivKey.PubKey()\<close> dereference nil.\<close>
definition LoadPrivValidatorFSWithSigner ::
  "('cv, 'cp, 't) ext \<Rightarrow> string \<Rightarrow> (PrivValidatorJSON \<Rightarrow> Signer) \<Rightarrow> world
     \<Rightarrow> (PrivValidatorFS, world) outcome" where
  "LoadPrivValidatorFSWithSigner X path signerFunc w =
     (case files w path of
        None \<Rightarrow> Fatal (Exit (''open '' @ path @ '': no such file or directory'')) w
      | Some privValJSONBytes \<Rightarrow>
          (case json_Unmarshal X privValJSONBytes of
             Inl err \<Rightarrow> Fatal (Exit (''Error reading PrivValidator from '' @ path @ '': '' @ err)) w
           | Inr j \<Rightarrow>
               (case PrivKey j of
                  None \<Rightarrow> Fatal (GoPanic ''nil pointer dereference'') w
                | Some k \<Rightarrow>
                    (let privVal = j\<lparr>Address := PubKey_Address X (PrivKey_PubKey X k),
                                      PubKey := PrivKey_PubKey X k\<rparr>
                     in Return (PrivValidatorJSON.extend privVal
                          (PrivValidatorFS.fields (signerFunc privVal) path (PrivKey privVal)))))))"

definition LoadPrivValidatorFS ::
  "('cv, 'cp, 't) ext \<Rightarrow> string \<Rightarrow> world \<Rightarrow> (PrivValidatorFS, world) outcome" where
  "LoadPrivValidatorFS X path w =
     LoadPrivValidatorFSWithSigner X path
       (\<lambda>privVal. DefaultSigner_Sign X (NewDefaultSigner (PrivKey privVal))) w"

subsection \<open>save and Save\<close>

text \<open>The outcome of a method: its results with the validator and the world, or a panic
  with the validator and the world it leaves.\<close>
type_synonym 'a call = "('a, PrivValidatorFS \<times> world) outcome"

text \<open>The copy \<^verbatim>\<open>bakPrivVal\<close> that \<^verbatim>\<open>save\<close> serialises.\<close>
definition bakPrivVal :: "PrivValidatorFS \<Rightarrow> PrivValidatorFS" where
  "bakPrivVal pv = (if \<not> Empty (oldPrivKey pv) then pv\<lparr>PrivKey := oldPrivKey pv\<rparr> else pv)"

definition save ::
  "('cv, 'cp, 't) ext \<Rightarrow> PrivValidatorFS \<Rightarrow> world \<Rightarrow> (PrivValidatorFS \<times> world) call" where
  "save X pv w =
     (if filePath pv = []
      then Fatal (PanicSanity ''Cannot save PrivValidator: filePath not set'') (pv, w)
      else
        (case json_Marshal X (PrivValidatorJSON.truncate (bakPrivVal pv)) of
           Inl err \<Rightarrow> Fatal (PanicCrisis err) (pv, w)
         | Inr jsonBytes \<Rightarrow>
             (case WriteFileAtomic (filePath (bakPrivVal pv)) jsonBytes w of
                Inl err \<Rightarrow> Fatal (PanicCrisis err) (pv, w)
              | Inr w' \<Rightarrow> Return (pv, w'))))"

definition Save ::
  "('cv, 'cp, 't) ext \<Rightarrow> PrivValidatorFS \<Rightarrow> world \<Rightarrow> (PrivValidatorFS \<times> world) call" where
  "Save X pv w = save X pv w"

subsection \<open>Reset and ModifyLastHeight\<close>

definition Reset ::
  "('cv, 'cp, 't) ext \<Rightarrow> PrivValidatorFS \<Rightarrow> world \<Rightarrow> (PrivValidatorFS \<times> world) call" where
  "Reset X pv w =
     Save X (pv\<lparr>LastHeight := 0, LastRound := 0, LastStep := 0,
                LastSignature := None, LastSignBytes := None\<rparr>) w"

definition ModifyLastHeight ::
  "('cv, 'cp, 't) ext \<Rightarrow> int64 \<Rightarrow> PrivValidatorFS \<Rightarrow> world
     \<Rightarrow> (PrivValidatorFS \<times> world) call" where
  "ModifyLastHeight X h pv w =
     Save X (pv\<lparr>LastHeight := h, LastRound := 0, LastStep := 3,
                LastSignature := None, LastSignBytes := None\<rparr>) w"

subsection \<open>checkHRS\<close>

text \<open>The pair is \<^verbatim>\<open>(sameHRS, err)\<close>. The \<^verbatim>\<open>Printf\<close> of the height branch writes to
  standard output only.\<close>

definition checkHRS ::
  "PrivValidatorFS \<Rightarrow> int64 \<Rightarrow> go_int \<Rightarrow> int8 \<Rightarrow> (bool \<times> error option, unit) outcome" where
  "checkHRS pv height round step =
     (if height <s LastHeight pv then Return (False, Some ''Height regression'')
      else if LastHeight pv = height then
        (if round <s LastRound pv then Return (False, Some ''Round regression'')
         else if LastRound pv = round then
           (if step <s LastStep pv then Return (False, Some ''Step regression'')
            else if LastStep pv = step then
              (if LastSignBytes pv \<noteq> None then
                 (if Empty (LastSignature pv)
                  then Fatal (GoPanic ''privVal: LastSignature is nil but LastSignBytes is not!'') ()
                  else Return (True, None))
               else Return (False, Some ''No LastSignature found''))
            else Return (False, None))
         else Return (False, None))
      else Return (False, None))"

subsection \<open>saveSigned and signBytesHRS\<close>

definition saveSigned ::
  "('cv, 'cp, 't) ext \<Rightarrow> int64 \<Rightarrow> go_int \<Rightarrow> int8 \<Rightarrow> bytes \<Rightarrow> crypto_Signature
     \<Rightarrow> PrivValidatorFS \<Rightarrow> world \<Rightarrow> (PrivValidatorFS \<times> world) call" where
  "saveSigned X height round step signBytes sig pv w =
     save X (pv\<lparr>LastHeight := height, LastRound := round, LastStep := step,
                LastSignature := sig, LastSignBytes := signBytes\<rparr>) w"

type_synonym checkOnlyDifferByTimestamp = "bytes \<Rightarrow> bytes \<Rightarrow> (bool, unit) outcome"

definition signBytesHRS ::
  "('cv, 'cp, 't) ext \<Rightarrow> int64 \<Rightarrow> go_int \<Rightarrow> int8 \<Rightarrow> bytes \<Rightarrow> checkOnlyDifferByTimestamp
     \<Rightarrow> PrivValidatorFS \<Rightarrow> world
     \<Rightarrow> ((crypto_Signature \<times> error option) \<times> PrivValidatorFS \<times> world) call" where
  "signBytesHRS X height round step signBytes checkFn pv w =
     (case checkHRS pv height round step of
        Fatal f _ \<Rightarrow> Fatal f (pv, w)
      | Return (sameHRS, err) \<Rightarrow>
          (if err \<noteq> None then Return ((None, err), pv, w)
           else if sameHRS then
             (if bytes_Equal signBytes (LastSignBytes pv)
              then Return ((LastSignature pv, None), pv, w)
              else (case checkFn (LastSignBytes pv) signBytes of
                      Fatal f _ \<Rightarrow> Fatal f (pv, w)
                    | Return differOnlyByTimestamp \<Rightarrow>
                        (if differOnlyByTimestamp
                         then Return ((LastSignature pv, None), pv, w)
                         else Return ((None, Some ''Conflicting data''), pv, w))))
           else
             (let w1 = w\<lparr>signer_calls := signer_calls w @ [signBytes]\<rparr>
              in case Signer pv signBytes of
                   (sig, Some err') \<Rightarrow> Return ((sig, Some err'), pv, w1)
                 | (sig, None) \<Rightarrow>
                     (case saveSigned X height round step signBytes sig pv w1 of
                        Fatal f s \<Rightarrow> Fatal f s
                      | Return (pv', w') \<Rightarrow> Return ((sig, None), pv', w')))))"

subsection \<open>The equivalence checkers\<close>

definition checkVotesOnlyDifferByTimestamp ::
  "('cv, 'cp, 't) ext \<Rightarrow> checkOnlyDifferByTimestamp" where
  "checkVotesOnlyDifferByTimestamp X lastSignBytes newSignBytes =
     (case UnmarshalVote X lastSignBytes of
        Inl err \<Rightarrow>
          Fatal (GoPanic (''LastSignBytes cannot be unmarshalled into vote: '' @ err)) ()
      | Inr lastVote \<Rightarrow>
          (case UnmarshalVote X newSignBytes of
             Inl err \<Rightarrow>
               Fatal (GoPanic (''signBytes cannot be unmarshalled into vote: '' @ err)) ()
           | Inr newVote \<Rightarrow>
               (let now = Now X;
                    lastVoteBytes = MarshalVote X (setVoteTimestamp X now lastVote);
                    newVoteBytes = MarshalVote X (setVoteTimestamp X now newVote)
                in Return (bytes_Equal newVoteBytes lastVoteBytes))))"

definition checkProposalsOnlyDifferByTimestamp ::
  "('cv, 'cp, 't) ext \<Rightarrow> checkOnlyDifferByTimestamp" where
  "checkProposalsOnlyDifferByTimestamp X lastSignBytes newSignBytes =
     (case UnmarshalProposal X lastSignBytes of
        Inl err \<Rightarrow>
          Fatal (GoPanic (''LastSignBytes cannot be unmarshalled into proposal: '' @ err)) ()
      | Inr lastProposal \<Rightarrow>
          (case UnmarshalProposal X newSignBytes of
             Inl err \<Rightarrow>
               Fatal (GoPanic (''signBytes cannot be unmarshalled into proposal: '' @ err)) ()
           | Inr newProposal \<Rightarrow>
               (let now = Now X;
                    lastProposalBytes = MarshalProposal X (setProposalTimestamp X now lastProposal);
                    newProposalBytes = MarshalProposal X (setProposalTimestamp X now newProposal)
                in Return (bytes_Equal newProposalBytes lastProposalBytes))))"

subsection \<open>SignVote, SignProposal, SignHeartbeat\<close>

text \<open>The result is the returned error, the message as the call leaves it, the validator
  and the world. Go evaluates \<^verbatim>\<open>voteToStep(vote)\<close> before \<^verbatim>\<open>SignBytes(chainID, vote)\<close> and
  before the call of \<^verbatim>\<open>signBytesHRS\<close>.\<close>

definition SignVote ::
  "('cv, 'cp, 't) ext \<Rightarrow> string \<Rightarrow> Vote \<Rightarrow> PrivValidatorFS \<Rightarrow> world
     \<Rightarrow> (error option \<times> Vote \<times> PrivValidatorFS \<times> world) call" where
  "SignVote X chainID vote pv w =
     (case voteToStep X vote of
        Fatal f _ \<Rightarrow> Fatal f (pv, w)
      | Return step \<Rightarrow>
          (case signBytesHRS X (Vote.Height vote) (Vote.Round vote) step
                  (SignBytesVote X chainID vote) (checkVotesOnlyDifferByTimestamp X) pv w of
             Fatal f s \<Rightarrow> Fatal f s
           | Return ((signature, Some err), pv', w') \<Rightarrow>
               Return (Some (''Error signing vote: '' @ err), vote, pv', w')
           | Return ((signature, None), pv', w') \<Rightarrow>
               Return (None, vote\<lparr>Vote.Signature := signature\<rparr>, pv', w')))"

definition SignProposal ::
  "('cv, 'cp, 't) ext \<Rightarrow> string \<Rightarrow> Proposal \<Rightarrow> PrivValidatorFS \<Rightarrow> world
     \<Rightarrow> (error option \<times> Proposal \<times> PrivValidatorFS \<times> world) call" where
  "SignProposal X chainID proposal pv w =
     (case signBytesHRS X (Proposal.Height proposal) (Proposal.Round proposal) stepPropose
             (SignBytesProposal X chainID proposal) (checkProposalsOnlyDifferByTimestamp X) pv w of
        Fatal f s \<Rightarrow> Fatal f s
      | Return ((signature, Some err), pv', w') \<Rightarrow>
          Return (Some (''Error signing proposal: '' @ err), proposal, pv', w')
      | Return ((signature, None), pv', w') \<Rightarrow>
          Return (None, proposal\<lparr>Proposal.Signature := signature\<rparr>, pv', w'))"

definition SignHeartbeat ::
  "('cv, 'cp, 't) ext \<Rightarrow> string \<Rightarrow> Heartbeat \<Rightarrow> PrivValidatorFS \<Rightarrow> world
     \<Rightarrow> (error option \<times> Heartbeat \<times> PrivValidatorFS \<times> world) call" where
  "SignHeartbeat X chainID heartbeat pv w =
     (let msg = SignBytesHeartbeat X chainID heartbeat
      in case Signer pv msg of
           (sig, err) \<Rightarrow>
             Return (err, heartbeat\<lparr>Heartbeat.Signature := sig\<rparr>, pv,
                     w\<lparr>signer_calls := signer_calls w @ [msg]\<rparr>))"

subsection \<open>Vocabulary for the properties\<close>

text \<open>The triple \<^verbatim>\<open>(LastHeight, LastRound, LastStep)\<close> and its lexicographic order, by the
  signed comparisons \<^verbatim>\<open>checkHRS\<close> makes.\<close>

type_synonym hrs = "int64 \<times> go_int \<times> int8"

definition HRS :: "PrivValidatorFS \<Rightarrow> hrs" where
  "HRS pv = (LastHeight pv, LastRound pv, LastStep pv)"

fun hrs_less :: "hrs \<Rightarrow> hrs \<Rightarrow> bool" where
  "hrs_less (h, r, s) (h', r', s') =
     (h <s h' \<or> (h = h' \<and> (r <s r' \<or> (r = r' \<and> s <s s'))))"

definition hrs_le :: "hrs \<Rightarrow> hrs \<Rightarrow> bool" where
  "hrs_le a b = (hrs_less a b \<or> a = b)"

text \<open>A vote or a proposal to sign, and what \<^verbatim>\<open>SignVote\<close> and \<^verbatim>\<open>SignProposal\<close> take from
  it: height, round, step, canonical bytes, equivalence checker, the prefix of the
  returned error, and the message with its signature set.\<close>

datatype message = MVote Vote | MProposal Proposal

fun msg_height :: "message \<Rightarrow> int64" where
  "msg_height (MVote vote) = Vote.Height vote"
| "msg_height (MProposal proposal) = Proposal.Height proposal"

fun msg_round :: "message \<Rightarrow> go_int" where
  "msg_round (MVote vote) = Vote.Round vote"
| "msg_round (MProposal proposal) = Proposal.Round proposal"

fun msg_step :: "('cv, 'cp, 't) ext \<Rightarrow> message \<Rightarrow> (int8, unit) outcome" where
  "msg_step X (MVote vote) = voteToStep X vote"
| "msg_step X (MProposal proposal) = Return stepPropose"

fun msg_bytes :: "('cv, 'cp, 't) ext \<Rightarrow> string \<Rightarrow> message \<Rightarrow> bytes" where
  "msg_bytes X chainID (MVote vote) = SignBytesVote X chainID vote"
| "msg_bytes X chainID (MProposal proposal) = SignBytesProposal X chainID proposal"

fun msg_check :: "('cv, 'cp, 't) ext \<Rightarrow> message \<Rightarrow> checkOnlyDifferByTimestamp" where
  "msg_check X (MVote vote) = checkVotesOnlyDifferByTimestamp X"
| "msg_check X (MProposal proposal) = checkProposalsOnlyDifferByTimestamp X"

fun msg_prefix :: "message \<Rightarrow> string" where
  "msg_prefix (MVote vote) = ''Error signing vote: ''"
| "msg_prefix (MProposal proposal) = ''Error signing proposal: ''"

fun msg_signed :: "message \<Rightarrow> crypto_Signature \<Rightarrow> message" where
  "msg_signed (MVote vote) sig = MVote (vote\<lparr>Vote.Signature := sig\<rparr>)"
| "msg_signed (MProposal proposal) sig = MProposal (proposal\<lparr>Proposal.Signature := sig\<rparr>)"

text \<open>The call the consensus engine makes for a message: \<^verbatim>\<open>SignVote\<close> for a vote,
  \<^verbatim>\<open>SignProposal\<close> for a proposal.\<close>

fun sign ::
  "('cv, 'cp, 't) ext \<Rightarrow> string \<Rightarrow> message \<Rightarrow> PrivValidatorFS \<Rightarrow> world
     \<Rightarrow> (error option \<times> message \<times> PrivValidatorFS \<times> world) call" where
  "sign X chainID (MVote vote) pv w =
     (case SignVote X chainID vote pv w of
        Fatal f s \<Rightarrow> Fatal f s
      | Return (err, vote', pv', w') \<Rightarrow> Return (err, MVote vote', pv', w'))"
| "sign X chainID (MProposal proposal) pv w =
     (case SignProposal X chainID proposal pv w of
        Fatal f s \<Rightarrow> Fatal f s
      | Return (err, proposal', pv', w') \<Rightarrow> Return (err, MProposal proposal', pv', w'))"

text \<open>A run of calls, one after the other on the same validator; the results are the
  returned errors and messages in order. The run goes on after an error and stops at a
  panic.\<close>

fun sign_all ::
  "('cv, 'cp, 't) ext \<Rightarrow> string \<Rightarrow> message list \<Rightarrow> PrivValidatorFS \<Rightarrow> world
     \<Rightarrow> ((error option \<times> message) list \<times> PrivValidatorFS \<times> world) call" where
  "sign_all X chainID [] pv w = Return ([], pv, w)"
| "sign_all X chainID (m # ms) pv w =
     (case sign X chainID m pv w of
        Fatal f s \<Rightarrow> Fatal f s
      | Return (err, m', pv', w') \<Rightarrow>
          (case sign_all X chainID ms pv' w' of
             Fatal f s \<Rightarrow> Fatal f s
           | Return (res, pv'', w'') \<Rightarrow> Return ((err, m') # res, pv'', w'')))"

text \<open>The messages of a list have steps, and their triples rise strictly, the first one
  above \<open>t\<close>.\<close>

fun ahead_chain :: "('cv, 'cp, 't) ext \<Rightarrow> hrs \<Rightarrow> message list \<Rightarrow> bool" where
  "ahead_chain X t [] = True"
| "ahead_chain X t (m # ms) =
     (case msg_step X m of
        Fatal f u \<Rightarrow> False
      | Return s \<Rightarrow>
          hrs_less t (msg_height m, msg_round m, s)
          \<and> ahead_chain X (msg_height m, msg_round m, s) ms)"

text \<open>The state a signature leaves: the five fields \<^verbatim>\<open>saveSigned\<close> assigns.\<close>

definition signed_state ::
  "PrivValidatorFS \<Rightarrow> int64 \<Rightarrow> go_int \<Rightarrow> int8 \<Rightarrow> bytes \<Rightarrow> crypto_Signature \<Rightarrow> PrivValidatorFS" where
  "signed_state pv height round step signBytes sig =
     pv\<lparr>LastHeight := height, LastRound := round, LastStep := step,
        LastSignature := sig, LastSignBytes := signBytes\<rparr>"

text \<open>The record \<^verbatim>\<open>save\<close> hands to \<^verbatim>\<open>json.Marshal\<close>.\<close>

definition persisted :: "PrivValidatorFS \<Rightarrow> PrivValidatorJSON" where
  "persisted pv = PrivValidatorJSON.truncate (bakPrivVal pv)"

subsection \<open>A small concrete instance\<close>

text \<open>
  Collaborators to run the definitions on: the canonical bytes of a message are its
  \<open>Rest\<close>, whose first byte is the timestamp; the validator file holds the step and the
  private key; a signature is the key followed by the message.
\<close>

definition demo_unmarshal :: "bytes \<Rightarrow> error + byte \<times> byte list" where
  "demo_unmarshal b =
     (case b of
        None \<Rightarrow> Inl ''unexpected end of JSON input''
      | Some [] \<Rightarrow> Inl ''unexpected end of JSON input''
      | Some (t # content) \<Rightarrow> Inr (t, content))"

definition demo_marshal :: "byte \<times> byte list \<Rightarrow> bytes" where
  "demo_marshal v = Some (fst v # snd v)"

definition demo_encode :: "PrivValidatorJSON \<Rightarrow> byte list" where
  "demo_encode j = LastStep j # (case PrivKey j of None \<Rightarrow> [] | Some k \<Rightarrow> k)"

definition demo_Sign :: "crypto_PrivKey \<Rightarrow> bytes \<Rightarrow> crypto_Signature" where
  "demo_Sign k msg =
     (case k of
        None \<Rightarrow> None
      | Some key \<Rightarrow> Some (key @ (case msg of None \<Rightarrow> [] | Some b \<Rightarrow> b)))"

definition demo_ext :: "(byte \<times> byte list, byte \<times> byte list, byte) ext" where
  "demo_ext =
     \<lparr>VoteTypePrevote = 1,
      VoteTypePrecommit = 2,
      SignBytesVote = (\<lambda>chainID vote. Some (Vote.Rest vote)),
      SignBytesProposal = (\<lambda>chainID proposal. Some (Proposal.Rest proposal)),
      SignBytesHeartbeat = (\<lambda>chainID heartbeat. Some (Heartbeat.Rest heartbeat)),
      UnmarshalVote = demo_unmarshal,
      MarshalVote = demo_marshal,
      setVoteTimestamp = (\<lambda>now v. (now, snd v)),
      UnmarshalProposal = demo_unmarshal,
      MarshalProposal = demo_marshal,
      setProposalTimestamp = (\<lambda>now v. (now, snd v)),
      Now = 0,
      json_Marshal = (\<lambda>j. Inr (demo_encode j)),
      json_Unmarshal = (\<lambda>b. Inl ''invalid character''),
      PrivKey_PubKey = (\<lambda>k. Some k),
      PubKey_Address = (\<lambda>k. k),
      PrivKey_Sign = demo_Sign\<rparr>"

definition demo_world :: world where
  "demo_world = \<lparr>files = (\<lambda>path. None), write_error = (\<lambda>path. None), signer_calls = []\<rparr>"

definition demo_pv :: PrivValidatorFS where
  "demo_pv = GenPrivValidatorFS demo_ext [7] ''priv_validator.json''"

text \<open>A backend that refuses every message.\<close>
definition demo_failing_signer :: Signer where
  "demo_failing_signer msg = (None, Some ''device unplugged'')"

definition demo_vote :: "int64 \<Rightarrow> go_int \<Rightarrow> byte \<Rightarrow> byte list \<Rightarrow> Vote" where
  "demo_vote h r t content =
     \<lparr>Vote.Height = h, Vote.Round = r, Vote.Type = t, Vote.Signature = None,
      Vote.Rest = content\<rparr>"

definition demo_proposal :: "int64 \<Rightarrow> go_int \<Rightarrow> byte list \<Rightarrow> Proposal" where
  "demo_proposal h r content =
     \<lparr>Proposal.Height = h, Proposal.Round = r, Proposal.Signature = None,
      Proposal.Rest = content\<rparr>"

definition demo_heartbeat :: Heartbeat where
  "demo_heartbeat = \<lparr>Heartbeat.Signature = None, Heartbeat.Rest = [1, 2, 3]\<rparr>"

text \<open>The fresh validator after a prevote at height 10, round 0; and after a jump to
  height 20.\<close>

definition demo_signed :: PrivValidatorFS where
  "demo_signed = signed_state demo_pv 10 0 stepPrevote (Some [9, 1, 1]) (Some [7, 9, 1, 1])"

definition demo_forwarded :: PrivValidatorFS where
  "demo_forwarded = demo_pv\<lparr>LastHeight := 20, LastRound := 0, LastStep := 3,
                              LastSignature := None, LastSignBytes := None\<rparr>"

text \<open>A proposal, a prevote and a precommit at height 10, round 0.\<close>

definition demo_run :: "message list" where
  "demo_run = [MProposal (demo_proposal 10 0 [9, 5]), MVote (demo_vote 10 0 1 [9, 1, 1])]"

definition demo_precommit :: message where
  "demo_precommit = MVote (demo_vote 10 0 2 [9, 1, 1])"

section \<open>Properties\<close>

subsection \<open>Signed comparison\<close>

lemma sless_asym: "a <s b \<Longrightarrow> \<not> b <s (a::'a::len word)"
  by (simp add: word_sless_alt)

lemma sless_irrefl: "\<not> a <s (a::'a::len word)"
  by (simp add: word_sless_alt)

lemma sless_total: "\<not> a <s b \<Longrightarrow> a \<noteq> b \<Longrightarrow> b <s (a::'a::len word)"
  by (auto simp: word_sless_alt not_less le_less dest: signed_word_eqI)

subsection \<open>Saving\<close>

lemma filePath_bakPrivVal: "filePath (bakPrivVal pv) = filePath pv"
  by (simp add: bakPrivVal_def)

lemma save_ok:
  assumes "filePath pv \<noteq> []"
    and "json_Marshal X (persisted pv) = Inr d"
    and "write_error w (filePath pv) = None"
  shows "save X pv w = Return (pv, w\<lparr>files := (files w)(filePath pv := Some d)\<rparr>)"
  using assms by (simp add: save_def WriteFileAtomic_def filePath_bakPrivVal persisted_def)

subsection \<open>The branches of checkHRS\<close>

lemma checkHRS_ahead:
  "hrs_less (HRS pv) (h, r, s) \<Longrightarrow> checkHRS pv h r s = Return (False, None)"
  by (auto simp: HRS_def checkHRS_def sless_irrefl dest: sless_asym)

lemma checkHRS_ahead_iff:
  "checkHRS pv h r s = Return (False, None) \<longleftrightarrow> hrs_less (HRS pv) (h, r, s)"
  by (auto simp: HRS_def checkHRS_def sless_irrefl Empty_def dest: sless_asym sless_total split: if_splits)

lemma checkHRS_same:
  "LastHeight pv = h \<Longrightarrow> LastRound pv = r \<Longrightarrow> LastStep pv = s \<Longrightarrow>
   checkHRS pv h r s =
     (if LastSignBytes pv \<noteq> None
      then (if Empty (LastSignature pv)
            then Fatal (GoPanic ''privVal: LastSignature is nil but LastSignBytes is not!'') ()
            else Return (True, None))
      else Return (False, Some ''No LastSignature found''))"
  by (simp add: checkHRS_def sless_irrefl)

lemma checkHRS_height:
  "h <s LastHeight pv \<Longrightarrow> checkHRS pv h r s = Return (False, Some ''Height regression'')"
  by (simp add: checkHRS_def)

lemma checkHRS_round:
  "LastHeight pv = h \<Longrightarrow> r <s LastRound pv \<Longrightarrow> checkHRS pv h r s = Return (False, Some ''Round regression'')"
  by (simp add: checkHRS_def sless_irrefl)

lemma checkHRS_step:
  "LastHeight pv = h \<Longrightarrow> LastRound pv = r \<Longrightarrow> s <s LastStep pv \<Longrightarrow>
   checkHRS pv h r s = Return (False, Some ''Step regression'')"
  by (simp add: checkHRS_def sless_irrefl)

subsection \<open>The branches of signBytesHRS\<close>

lemma saveSigned_ok:
  assumes "filePath pv \<noteq> []"
    and "json_Marshal X (persisted (signed_state pv h r s sb sig)) = Inr d"
    and "write_error w (filePath pv) = None"
  shows "saveSigned X h r s sb sig pv w =
           Return (signed_state pv h r s sb sig, w\<lparr>files := (files w)(filePath pv := Some d)\<rparr>)"
proof -
  have "filePath (signed_state pv h r s sb sig) = filePath pv"
    by (simp add: signed_state_def)
  with assms save_ok [of "signed_state pv h r s sb sig" X d w] show ?thesis
    by (simp add: saveSigned_def signed_state_def)
qed

lemma signBytesHRS_error:
  "checkHRS pv h r s = Return (False, Some e) \<Longrightarrow>
   signBytesHRS X h r s sb checkFn pv w = Return ((None, Some e), pv, w)"
  by (simp add: signBytesHRS_def)

lemma signBytesHRS_same:
  "checkHRS pv h r s = Return (True, None) \<Longrightarrow>
   signBytesHRS X h r s sb checkFn pv w =
     (if bytes_Equal sb (LastSignBytes pv) then Return ((LastSignature pv, None), pv, w)
      else case checkFn (LastSignBytes pv) sb of
             Fatal f u \<Rightarrow> Fatal f (pv, w)
           | Return b \<Rightarrow> if b then Return ((LastSignature pv, None), pv, w)
                          else Return ((None, Some ''Conflicting data''), pv, w))"
  by (simp add: signBytesHRS_def)

lemma signBytesHRS_ahead:
  "checkHRS pv h r s = Return (False, None) \<Longrightarrow>
   signBytesHRS X h r s sb checkFn pv w =
     (case Signer pv sb of
        (sig, Some e) \<Rightarrow> Return ((sig, Some e), pv, w\<lparr>signer_calls := signer_calls w @ [sb]\<rparr>)
      | (sig, None) \<Rightarrow>
          (case saveSigned X h r s sb sig pv (w\<lparr>signer_calls := signer_calls w @ [sb]\<rparr>) of
             Fatal f st \<Rightarrow> Fatal f st
           | Return (pv', w') \<Rightarrow> Return ((sig, None), pv', w')))"
  by (simp add: signBytesHRS_def Let_def)

text \<open>Both signing methods are \<^verbatim>\<open>signBytesHRS\<close> with the error wrapped and the signature
  stored in the message.\<close>
lemma sign_eq:
  "msg_step X m = Return s \<Longrightarrow>
   sign X c m pv w =
     (case signBytesHRS X (msg_height m) (msg_round m) s (msg_bytes X c m) (msg_check X m) pv w of
        Fatal f st \<Rightarrow> Fatal f st
      | Return ((sig, Some e), pv', w') \<Rightarrow> Return (Some (msg_prefix m @ e), m, pv', w')
      | Return ((sig, None), pv', w') \<Rightarrow> Return (None, msg_signed m sig, pv', w'))"
  by (cases m) (auto simp: SignVote_def SignProposal_def split: outcome.splits option.splits prod.splits)

lemma sign_ahead:
  assumes step: "msg_step X m = Return s"
    and ahead: "hrs_less (HRS pv) (msg_height m, msg_round m, s)"
    and signer: "Signer pv (msg_bytes X c m) = (sig, None)"
    and path: "filePath pv \<noteq> []"
    and marshal: "json_Marshal X (persisted
                    (signed_state pv (msg_height m) (msg_round m) s (msg_bytes X c m) sig)) = Inr d"
    and wok: "write_error w (filePath pv) = None"
  shows "sign X c m pv w =
           Return (None, msg_signed m sig,
                   signed_state pv (msg_height m) (msg_round m) s (msg_bytes X c m) sig,
                   w\<lparr>signer_calls := signer_calls w @ [msg_bytes X c m],
                      files := (files w)(filePath pv := Some d)\<rparr>)"
proof -
  let ?w1 = "w\<lparr>signer_calls := signer_calls w @ [msg_bytes X c m]\<rparr>"
  have "write_error ?w1 (filePath pv) = None"
    using wok by simp
  from saveSigned_ok [OF path marshal this]
  have "saveSigned X (msg_height m) (msg_round m) s (msg_bytes X c m) sig pv ?w1 =
          Return (signed_state pv (msg_height m) (msg_round m) s (msg_bytes X c m) sig,
                  ?w1\<lparr>files := (files ?w1)(filePath pv := Some d)\<rparr>)" .
  then show ?thesis
    using signer by (simp add: sign_eq [OF step] signBytesHRS_ahead [OF checkHRS_ahead [OF ahead]])
qed

subsection \<open>Runs of strictly rising requests\<close>

lemma signed_state_twice:
  "signed_state (signed_state pv h r s sb sig) h' r' s' sb' sig' = signed_state pv h' r' s' sb' sig'"
  by (simp add: signed_state_def)

lemma signed_state_frame:
  "Signer (signed_state pv h r s sb sig) = Signer pv"
  "filePath (signed_state pv h r s sb sig) = filePath pv"
  "oldPrivKey (signed_state pv h r s sb sig) = oldPrivKey pv"
  "HRS (signed_state pv h r s sb sig) = (h, r, s)"
  by (simp_all add: signed_state_def HRS_def)

lemma sign_all_ahead:
  assumes path: "filePath pv \<noteq> []"
    and marshal: "\<And>j. json_Marshal X j = Inr (enc j)"
  shows "ahead_chain X (HRS pv) (ms @ [m]) \<Longrightarrow>
         \<forall>m' \<in> set (ms @ [m]). snd (Signer pv (msg_bytes X c m')) = None \<Longrightarrow>
         write_error w (filePath pv) = None \<Longrightarrow>
         \<exists>s pv'. msg_step X m = Return s \<and>
           pv' = signed_state pv (msg_height m) (msg_round m) s (msg_bytes X c m)
                   (fst (Signer pv (msg_bytes X c m))) \<and>
           sign_all X c (ms @ [m]) pv w =
             Return (map (\<lambda>m'. (None, msg_signed m' (fst (Signer pv (msg_bytes X c m'))))) (ms @ [m]),
                     pv',
                     w\<lparr>signer_calls := signer_calls w @ map (msg_bytes X c) (ms @ [m]),
                        files := (files w)(filePath pv := Some (enc (persisted pv')))\<rparr>)"
  using path
proof (induction ms arbitrary: pv w)
  case Nil
  from Nil.prems(1) obtain s where s: "msg_step X m = Return s"
    and ahead: "hrs_less (HRS pv) (msg_height m, msg_round m, s)"
    by (auto split: outcome.splits)
  from Nil.prems(2) have sg: "Signer pv (msg_bytes X c m) = (fst (Signer pv (msg_bytes X c m)), None)"
    by (simp add: prod_eq_iff)
  from sign_ahead [OF s ahead sg Nil.prems(4) marshal Nil.prems(3)] s
  show ?case by (simp del: fun_upd_apply)
next
  case (Cons m0 ms)
  from Cons.prems(1) obtain s0 where s0: "msg_step X m0 = Return s0"
    and ahead: "hrs_less (HRS pv) (msg_height m0, msg_round m0, s0)"
    and chain: "ahead_chain X (msg_height m0, msg_round m0, s0) (ms @ [m])"
    by (auto split: outcome.splits)
  let ?sb0 = "msg_bytes X c m0"
  let ?sig0 = "fst (Signer pv ?sb0)"
  let ?pv1 = "signed_state pv (msg_height m0) (msg_round m0) s0 ?sb0 ?sig0"
  let ?w1 = "w\<lparr>signer_calls := signer_calls w @ [?sb0],
               files := (files w)(filePath pv := Some (enc (persisted ?pv1)))\<rparr>"
  from Cons.prems(2) have sg: "Signer pv ?sb0 = (?sig0, None)"
    by (simp add: prod_eq_iff)
  from sign_ahead [OF s0 ahead sg Cons.prems(4) marshal Cons.prems(3)]
  have first: "sign X c m0 pv w = Return (None, msg_signed m0 ?sig0, ?pv1, ?w1)" .
  have "\<exists>s pv'. msg_step X m = Return s \<and>
           pv' = signed_state ?pv1 (msg_height m) (msg_round m) s (msg_bytes X c m)
                   (fst (Signer ?pv1 (msg_bytes X c m))) \<and>
           sign_all X c (ms @ [m]) ?pv1 ?w1 =
             Return (map (\<lambda>m'. (None, msg_signed m' (fst (Signer ?pv1 (msg_bytes X c m'))))) (ms @ [m]),
                     pv',
                     ?w1\<lparr>signer_calls := signer_calls ?w1 @ map (msg_bytes X c) (ms @ [m]),
                        files := (files ?w1)(filePath ?pv1 := Some (enc (persisted pv')))\<rparr>)"
  proof (rule Cons.IH)
    show "ahead_chain X (HRS ?pv1) (ms @ [m])"
      using chain by (simp add: signed_state_frame)
    show "\<forall>m' \<in> set (ms @ [m]). snd (Signer ?pv1 (msg_bytes X c m')) = None"
      using Cons.prems(2) by (simp add: signed_state_frame)
    show "write_error ?w1 (filePath ?pv1) = None"
      using Cons.prems(3) by (simp add: signed_state_frame)
    show "filePath ?pv1 \<noteq> []"
      using Cons.prems(4) by (simp add: signed_state_frame)
  qed
  then obtain s where s: "msg_step X m = Return s"
    and rest: "sign_all X c (ms @ [m]) ?pv1 ?w1 =
             Return (map (\<lambda>m'. (None, msg_signed m' (fst (Signer pv (msg_bytes X c m'))))) (ms @ [m]),
                     signed_state pv (msg_height m) (msg_round m) s (msg_bytes X c m)
                       (fst (Signer pv (msg_bytes X c m))),
                     w\<lparr>signer_calls := signer_calls w @ ?sb0 # map (msg_bytes X c) (ms @ [m]),
                        files := (files w)(filePath pv := Some (enc (persisted
                          (signed_state pv (msg_height m) (msg_round m) s (msg_bytes X c m)
                             (fst (Signer pv (msg_bytes X c m)))))))\<rparr>)"
    by (auto simp: signed_state_frame signed_state_twice simp del: fun_upd_apply)
  show ?case
    using s first rest by (simp del: fun_upd_apply)
qed

subsection \<open>Where the state goes\<close>

lemma save_state:
  "save X pv w = Return (pv', w') \<Longrightarrow> pv' = pv"
  "save X pv w = Fatal f (pv', w') \<Longrightarrow> pv' = pv \<and> w' = w"
  by (auto simp: save_def split: if_splits sum.splits)

lemma signBytesHRS_state:
  assumes "signBytesHRS X h r s sb checkFn pv w = Return (res, pv', w')
           \<or> signBytesHRS X h r s sb checkFn pv w = Fatal f (pv', w')"
  shows "pv' = pv \<or> (hrs_less (HRS pv) (h, r, s)
                      \<and> pv' = signed_state pv h r s sb (fst (Signer pv sb)))"
proof (cases "checkHRS pv h r s = Return (False, None)")
  case True
  then have ahead: "hrs_less (HRS pv) (h, r, s)"
    by (simp add: checkHRS_ahead_iff)
  show ?thesis
  proof (cases "snd (Signer pv sb)")
    case None
    then have sg: "Signer pv sb = (fst (Signer pv sb), None)"
      by (simp add: prod_eq_iff)
    have "pv' = signed_state pv h r s sb (fst (Signer pv sb))"
      using assms sg save_state [of X "signed_state pv h r s sb (fst (Signer pv sb))"]
      by (auto simp: signBytesHRS_ahead [OF True] saveSigned_def signed_state_def
            split: outcome.splits prod.splits)
    with ahead show ?thesis by simp
  next
    case (Some e)
    then have "Signer pv sb = (fst (Signer pv sb), Some e)"
      by (simp add: prod_eq_iff)
    with assms show ?thesis
      by (auto simp: signBytesHRS_ahead [OF True] split: prod.splits)
  qed
next
  case False
  with assms show ?thesis
    by (auto simp: signBytesHRS_def split: outcome.splits prod.splits if_splits)
qed

lemma sign_state:
  assumes "sign X c m pv w = Return (e, m', pv', w') \<or> sign X c m pv w = Fatal f (pv', w')"
  shows "hrs_le (HRS pv) (HRS pv')"
proof (cases "msg_step X m")
  case (Return s)
  from assms have
    "(\<exists>res. signBytesHRS X (msg_height m) (msg_round m) s (msg_bytes X c m) (msg_check X m) pv w
              = Return (res, pv', w'))
     \<or> signBytesHRS X (msg_height m) (msg_round m) s (msg_bytes X c m) (msg_check X m) pv w
              = Fatal f (pv', w')"
    by (auto simp: sign_eq [OF Return] split: outcome.splits prod.splits option.splits)
  then have "pv' = pv \<or> (hrs_less (HRS pv) (msg_height m, msg_round m, s)
        \<and> pv' = signed_state pv (msg_height m) (msg_round m) s (msg_bytes X c m)
                   (fst (Signer pv (msg_bytes X c m))))"
    using signBytesHRS_state by blast
  then show ?thesis
    by (auto simp: hrs_le_def signed_state_frame)
next
  case (Fatal g u)
  then obtain vote where "m = MVote vote"
    by (cases m) auto
  with Fatal assms show ?thesis
    by (auto simp: SignVote_def hrs_le_def)
qed

subsection \<open>Single methods\<close>

lemma SignVote_eq:
  "voteToStep X vote = Return s \<Longrightarrow>
   SignVote X c vote pv w =
     (case signBytesHRS X (Vote.Height vote) (Vote.Round vote) s (SignBytesVote X c vote)
             (checkVotesOnlyDifferByTimestamp X) pv w of
        Fatal f st \<Rightarrow> Fatal f st
      | Return ((sig, Some e), pv', w') \<Rightarrow> Return (Some (''Error signing vote: '' @ e), vote, pv', w')
      | Return ((sig, None), pv', w') \<Rightarrow> Return (None, vote\<lparr>Vote.Signature := sig\<rparr>, pv', w'))"
  by (simp add: SignVote_def)

lemma ModifyLastHeight_ok:
  assumes "filePath pv \<noteq> []"
    and "json_Marshal X (persisted (pv\<lparr>LastHeight := h, LastRound := 0, LastStep := 3,
            LastSignature := None, LastSignBytes := None\<rparr>)) = Inr d"
    and "write_error w (filePath pv) = None"
  shows "ModifyLastHeight X h pv w =
           Return (pv\<lparr>LastHeight := h, LastRound := 0, LastStep := 3,
                      LastSignature := None, LastSignBytes := None\<rparr>,
                   w\<lparr>files := (files w)(filePath pv := Some d)\<rparr>)"
  using assms
    save_ok [of "pv\<lparr>LastHeight := h, LastRound := 0, LastStep := 3,
                   LastSignature := None, LastSignBytes := None\<rparr>" X d w]
  by (simp add: ModifyLastHeight_def Save_def)

subsection \<open>Where a call panics\<close>

text \<open>Outside the hypotheses of the claims below the guard does not return: a state
  with sign bytes and no signature stops \<^verbatim>\<open>checkHRS\<close>, and a validator without a file
  path stops \<^verbatim>\<open>save\<close> after the Signer has signed and the fields are assigned.\<close>

lemma sign_same_hrs_signature_missing:
  assumes "msg_step X m = Return (LastStep pv)"
    and "msg_height m = LastHeight pv"
    and "msg_round m = LastRound pv"
    and "LastSignBytes pv \<noteq> None"
    and "Empty (LastSignature pv)"
  shows "sign X c m pv w =
           Fatal (GoPanic ''privVal: LastSignature is nil but LastSignBytes is not!'') (pv, w)"
proof -
  have "checkHRS pv (msg_height m) (msg_round m) (LastStep pv) =
          Fatal (GoPanic ''privVal: LastSignature is nil but LastSignBytes is not!'') ()"
    using assms(2-5) by (simp add: checkHRS_same)
  then show ?thesis
    by (simp add: sign_eq [OF assms(1)] signBytesHRS_def)
qed

lemma sign_ahead_without_path:
  assumes "msg_step X m = Return s"
    and "hrs_less (HRS pv) (msg_height m, msg_round m, s)"
    and "Signer pv (msg_bytes X c m) = (sig, None)"
    and "filePath pv = []"
  shows "sign X c m pv w =
           Fatal (PanicSanity ''Cannot save PrivValidator: filePath not set'')
             (signed_state pv (msg_height m) (msg_round m) s (msg_bytes X c m) sig,
              w\<lparr>signer_calls := signer_calls w @ [msg_bytes X c m]\<rparr>)"
  using assms(3,4)
  by (simp add: sign_eq [OF assms(1)] signBytesHRS_ahead [OF checkHRS_ahead [OF assms(2)]]
        saveSigned_def save_def signed_state_def)

subsection \<open>Where the old key comes from\<close>

lemma GenPrivValidatorFS_keys:
  "oldPrivKey (GenPrivValidatorFS X privKey path) = Some privKey"
  "PrivKey (GenPrivValidatorFS X privKey path) = Some privKey"
  by (simp_all add: GenPrivValidatorFS_def)

lemma LoadPrivValidatorFSWithSigner_keys:
  assumes "LoadPrivValidatorFSWithSigner X path signerFunc w = Return pv"
  shows "oldPrivKey pv = PrivKey pv" and "\<not> Empty (oldPrivKey pv)" and "filePath pv = path"
  using assms
  by (auto simp: LoadPrivValidatorFSWithSigner_def Let_def Empty_def
        PrivValidatorJSON.extend_def PrivValidatorFS.fields_def
        split: option.splits sum.splits)

section \<open>The claims\<close>

lemmas demo_defs = demo_ext_def demo_world_def demo_pv_def demo_vote_def demo_proposal_def
  demo_heartbeat_def demo_signed_def demo_forwarded_def demo_run_def demo_precommit_def
  demo_unmarshal_def demo_marshal_def demo_encode_def demo_Sign_def demo_failing_signer_def
  GenPrivValidatorFS_def DefaultSigner_Sign_def NewDefaultSigner_def signed_state_def
  stepNone_def stepPropose_def stepPrevote_def stepPrecommit_def voteToStep_def
  checkVotesOnlyDifferByTimestamp_def checkProposalsOnlyDifferByTimestamp_def
  bytes_Equal_def Empty_def HRS_def word_sless_alt

text \<open>
  Claim C1. A vote or proposal at the height, round and step the validator last signed:
  when no sign bytes are recorded the call fails with "No LastSignature found" (the
  spec's NoPriorSignature); when sign bytes and signature are recorded, the new bytes are
  not equal to them and the equivalence checker of the message kind answers false, the
  call fails with "Conflicting data" (the spec's ConflictingSignRequest). In both cases
  the message, the validator and the world come back as they were: no signature is set,
  the Signer is not called, nothing is written. The message has a step, that is, a vote
  is a prevote or a precommit; the recorded signature is not empty, the invariant of the
  signing state (without it \<^verbatim>\<open>checkHRS\<close> panics, see \<open>sign_same_hrs_signature_missing\<close>).
\<close>

theorem same_hrs_conflict_rejected:
  assumes "msg_step X m = Return (LastStep pv)"
    and "msg_height m = LastHeight pv"
    and "msg_round m = LastRound pv"
  shows "(LastSignBytes pv = None \<longrightarrow>
            sign X c m pv w = Return (Some (msg_prefix m @ ''No LastSignature found''), m, pv, w))
       \<and> (LastSignBytes pv \<noteq> None \<and> \<not> Empty (LastSignature pv)
            \<and> \<not> bytes_Equal (msg_bytes X c m) (LastSignBytes pv)
            \<and> msg_check X m (LastSignBytes pv) (msg_bytes X c m) = Return False \<longrightarrow>
            sign X c m pv w = Return (Some (msg_prefix m @ ''Conflicting data''), m, pv, w))"
proof -
  have same: "checkHRS pv (msg_height m) (msg_round m) (LastStep pv) =
     (if LastSignBytes pv \<noteq> None
      then (if Empty (LastSignature pv)
            then Fatal (GoPanic ''privVal: LastSignature is nil but LastSignBytes is not!'') ()
            else Return (True, None))
      else Return (False, Some ''No LastSignature found''))"
    using assms(2,3) by (simp add: checkHRS_same)
  show ?thesis
  proof (intro conjI impI)
    assume "LastSignBytes pv = None"
    with same have "checkHRS pv (msg_height m) (msg_round m) (LastStep pv)
        = Return (False, Some ''No LastSignature found'')"
      by simp
    then show "sign X c m pv w = Return (Some (msg_prefix m @ ''No LastSignature found''), m, pv, w)"
      by (simp add: sign_eq [OF assms(1)] signBytesHRS_error)
  next
    assume h: "LastSignBytes pv \<noteq> None \<and> \<not> Empty (LastSignature pv)
            \<and> \<not> bytes_Equal (msg_bytes X c m) (LastSignBytes pv)
            \<and> msg_check X m (LastSignBytes pv) (msg_bytes X c m) = Return False"
    with same have "checkHRS pv (msg_height m) (msg_round m) (LastStep pv) = Return (True, None)"
      by simp
    with h show "sign X c m pv w = Return (Some (msg_prefix m @ ''Conflicting data''), m, pv, w)"
      by (simp add: sign_eq [OF assms(1)] signBytesHRS_same)
  qed
qed

theorem same_hrs_conflict_rejected_witness:
  "sign demo_ext ''chain'' (MVote (demo_vote 20 0 2 [9, 1, 1])) demo_forwarded demo_world =
     Return (Some ''Error signing vote: No LastSignature found'',
             MVote (demo_vote 20 0 2 [9, 1, 1]), demo_forwarded, demo_world)
   \<and> sign demo_ext ''chain'' (MVote (demo_vote 10 0 1 [9, 2, 2])) demo_signed demo_world =
     Return (Some ''Error signing vote: Conflicting data'',
             MVote (demo_vote 10 0 1 [9, 2, 2]), demo_signed, demo_world)"
proof -
  have a: "msg_step demo_ext (MVote (demo_vote 20 0 2 [9, 1, 1])) = Return (LastStep demo_forwarded)"
    "msg_height (MVote (demo_vote 20 0 2 [9, 1, 1])) = LastHeight demo_forwarded"
    "msg_round (MVote (demo_vote 20 0 2 [9, 1, 1])) = LastRound demo_forwarded"
    by (simp_all add: demo_defs)
  have b: "msg_step demo_ext (MVote (demo_vote 10 0 1 [9, 2, 2])) = Return (LastStep demo_signed)"
    "msg_height (MVote (demo_vote 10 0 1 [9, 2, 2])) = LastHeight demo_signed"
    "msg_round (MVote (demo_vote 10 0 1 [9, 2, 2])) = LastRound demo_signed"
    by (simp_all add: demo_defs)
  have c: "LastSignBytes demo_forwarded = None"
    by (simp add: demo_defs)
  have d: "LastSignBytes demo_signed \<noteq> None \<and> \<not> Empty (LastSignature demo_signed)
       \<and> \<not> bytes_Equal (msg_bytes demo_ext ''chain'' (MVote (demo_vote 10 0 1 [9, 2, 2])))
             (LastSignBytes demo_signed)
       \<and> msg_check demo_ext (MVote (demo_vote 10 0 1 [9, 2, 2])) (LastSignBytes demo_signed)
             (msg_bytes demo_ext ''chain'' (MVote (demo_vote 10 0 1 [9, 2, 2]))) = Return False"
    by (simp add: demo_defs)
  show ?thesis
    using same_hrs_conflict_rejected [OF a, of "''chain''" demo_world]
      same_hrs_conflict_rejected [OF b, of "''chain''" demo_world] c d
    by simp
qed

text \<open>
  Claim C2. A vote or proposal below the last signed triple is refused and changes
  nothing: a lower height gives "Height regression", the same height and a lower round
  "Round regression", the same height and round and a lower step "Step regression", each
  wrapped in the prefix of the method. The message, the validator (with all five fields
  of the signing state) and the world are returned unchanged. The comparisons are the
  signed ones of the code; the message has a step.
\<close>

theorem regression_rejected:
  assumes "msg_step X m = Return s"
  shows "(msg_height m <s LastHeight pv \<longrightarrow>
            sign X c m pv w = Return (Some (msg_prefix m @ ''Height regression''), m, pv, w))
       \<and> (msg_height m = LastHeight pv \<and> msg_round m <s LastRound pv \<longrightarrow>
            sign X c m pv w = Return (Some (msg_prefix m @ ''Round regression''), m, pv, w))
       \<and> (msg_height m = LastHeight pv \<and> msg_round m = LastRound pv \<and> s <s LastStep pv \<longrightarrow>
            sign X c m pv w = Return (Some (msg_prefix m @ ''Step regression''), m, pv, w))"
  by (simp add: sign_eq [OF assms] signBytesHRS_error checkHRS_height checkHRS_round checkHRS_step)

theorem regression_rejected_witness:
  "sign demo_ext ''chain'' (MVote (demo_vote 3 0 1 [9, 1, 1])) demo_signed demo_world =
     Return (Some ''Error signing vote: Height regression'',
             MVote (demo_vote 3 0 1 [9, 1, 1]), demo_signed, demo_world)
   \<and> sign demo_ext ''chain'' (MVote (demo_vote 10 (- 1) 2 [9, 1, 1])) demo_signed demo_world =
     Return (Some ''Error signing vote: Round regression'',
             MVote (demo_vote 10 (- 1) 2 [9, 1, 1]), demo_signed, demo_world)
   \<and> sign demo_ext ''chain'' (MProposal (demo_proposal 10 0 [9, 5])) demo_signed demo_world =
     Return (Some ''Error signing proposal: Step regression'',
             MProposal (demo_proposal 10 0 [9, 5]), demo_signed, demo_world)"
proof -
  have a: "msg_step demo_ext (MVote (demo_vote 3 0 1 [9, 1, 1])) = Return stepPrevote"
    by (simp add: demo_defs)
  have b: "msg_step demo_ext (MVote (demo_vote 10 (- 1) 2 [9, 1, 1])) = Return stepPrecommit"
    by (simp add: demo_defs)
  have c: "msg_step demo_ext (MProposal (demo_proposal 10 0 [9, 5])) = Return stepPropose"
    by simp
  have d: "msg_height (MVote (demo_vote 3 0 1 [9, 1, 1])) <s LastHeight demo_signed"
    "msg_height (MVote (demo_vote 10 (- 1) 2 [9, 1, 1])) = LastHeight demo_signed
     \<and> msg_round (MVote (demo_vote 10 (- 1) 2 [9, 1, 1])) <s LastRound demo_signed"
    "msg_height (MProposal (demo_proposal 10 0 [9, 5])) = LastHeight demo_signed
     \<and> msg_round (MProposal (demo_proposal 10 0 [9, 5])) = LastRound demo_signed
     \<and> stepPropose <s LastStep demo_signed"
    by (simp_all add: demo_defs)
  show ?thesis
    using regression_rejected [OF a, of demo_signed "''chain''" demo_world]
      regression_rejected [OF b, of demo_signed "''chain''" demo_world]
      regression_rejected [OF c, of demo_signed "''chain''" demo_world] d
    by simp
qed

text \<open>
  Claim C3. A repeated call at the height, round and step already signed, with sign
  bytes and signature recorded, whose bytes are equal to the recorded ones under
  \<^verbatim>\<open>bytes.Equal\<close>, or for which the equivalence checker of the message kind answers true,
  returns no error and stores the recorded signature in the message. The validator and
  the world are unchanged: the list of Signer calls is the same and no file is written.
\<close>

theorem same_hrs_replay_returns_last_signature:
  assumes "msg_step X m = Return (LastStep pv)"
    and "msg_height m = LastHeight pv"
    and "msg_round m = LastRound pv"
    and "LastSignBytes pv \<noteq> None"
    and "\<not> Empty (LastSignature pv)"
    and "bytes_Equal (msg_bytes X c m) (LastSignBytes pv)
         \<or> msg_check X m (LastSignBytes pv) (msg_bytes X c m) = Return True"
  shows "sign X c m pv w = Return (None, msg_signed m (LastSignature pv), pv, w)"
proof -
  have "checkHRS pv (msg_height m) (msg_round m) (LastStep pv) = Return (True, None)"
    using assms(2-5) by (simp add: checkHRS_same)
  then show ?thesis
    using assms(6) by (auto simp: sign_eq [OF assms(1)] signBytesHRS_same)
qed

theorem same_hrs_replay_returns_last_signature_witness:
  "sign demo_ext ''chain'' (MVote (demo_vote 10 0 1 [9, 1, 1])) demo_signed demo_world =
     Return (None, MVote ((demo_vote 10 0 1 [9, 1, 1])\<lparr>Vote.Signature := Some [7, 9, 1, 1]\<rparr>),
             demo_signed, demo_world)
   \<and> sign demo_ext ''chain'' (MVote (demo_vote 10 0 1 [8, 1, 1])) demo_signed demo_world =
     Return (None, MVote ((demo_vote 10 0 1 [8, 1, 1])\<lparr>Vote.Signature := Some [7, 9, 1, 1]\<rparr>),
             demo_signed, demo_world)"
proof -
  have a: "msg_step demo_ext (MVote (demo_vote 10 0 1 [9, 1, 1])) = Return (LastStep demo_signed)"
    "msg_height (MVote (demo_vote 10 0 1 [9, 1, 1])) = LastHeight demo_signed"
    "msg_round (MVote (demo_vote 10 0 1 [9, 1, 1])) = LastRound demo_signed"
    "LastSignBytes demo_signed \<noteq> None"
    "\<not> Empty (LastSignature demo_signed)"
    "bytes_Equal (msg_bytes demo_ext ''chain'' (MVote (demo_vote 10 0 1 [9, 1, 1])))
       (LastSignBytes demo_signed)
     \<or> msg_check demo_ext (MVote (demo_vote 10 0 1 [9, 1, 1])) (LastSignBytes demo_signed)
          (msg_bytes demo_ext ''chain'' (MVote (demo_vote 10 0 1 [9, 1, 1]))) = Return True"
    by (simp_all add: demo_defs)
  have b: "msg_step demo_ext (MVote (demo_vote 10 0 1 [8, 1, 1])) = Return (LastStep demo_signed)"
    "msg_height (MVote (demo_vote 10 0 1 [8, 1, 1])) = LastHeight demo_signed"
    "msg_round (MVote (demo_vote 10 0 1 [8, 1, 1])) = LastRound demo_signed"
    "LastSignBytes demo_signed \<noteq> None"
    "\<not> Empty (LastSignature demo_signed)"
    "bytes_Equal (msg_bytes demo_ext ''chain'' (MVote (demo_vote 10 0 1 [8, 1, 1])))
       (LastSignBytes demo_signed)
     \<or> msg_check demo_ext (MVote (demo_vote 10 0 1 [8, 1, 1])) (LastSignBytes demo_signed)
          (msg_bytes demo_ext ''chain'' (MVote (demo_vote 10 0 1 [8, 1, 1]))) = Return True"
    by (simp_all add: demo_defs)
  have c: "LastSignature demo_signed = Some [7, 9, 1, 1]"
    by (simp add: demo_defs)
  show ?thesis
    using same_hrs_replay_returns_last_signature [OF a, of demo_world]
      same_hrs_replay_returns_last_signature [OF b, of demo_world] c
    by simp
qed

text \<open>
  Claim C4. Requests whose triples rise strictly, the first one above the validator's,
  all succeed when the Signer succeeds on each of them and the file can be saved (a file
  path is set, the encoder and the atomic write report no error). After the run the
  validator is the initial one with exactly the last request's height, round, step,
  canonical bytes and signature in its five state fields; the Signer was called once per
  request, in order; and the file holds the encoding of that final state, written before
  the last call returned. A run of one request is the single call; every prefix of a run
  is a run, so the state follows the latest call throughout.
\<close>

theorem strictly_ahead_commits:
  assumes "ahead_chain X (HRS pv) (ms @ [m])"
    and "\<forall>m' \<in> set (ms @ [m]). snd (Signer pv (msg_bytes X c m')) = None"
    and "filePath pv \<noteq> []"
    and "\<And>j. json_Marshal X j = Inr (enc j)"
    and "write_error w (filePath pv) = None"
  shows "\<exists>s pv'. msg_step X m = Return s \<and>
           pv' = signed_state pv (msg_height m) (msg_round m) s (msg_bytes X c m)
                   (fst (Signer pv (msg_bytes X c m))) \<and>
           sign_all X c (ms @ [m]) pv w =
             Return (map (\<lambda>m'. (None, msg_signed m' (fst (Signer pv (msg_bytes X c m'))))) (ms @ [m]),
                     pv',
                     w\<lparr>signer_calls := signer_calls w @ map (msg_bytes X c) (ms @ [m]),
                        files := (files w)(filePath pv := Some (enc (persisted pv')))\<rparr>)"
  using sign_all_ahead [OF assms(3,4,1,2,5)] .

theorem strictly_ahead_commits_witness:
  "sign_all demo_ext ''chain'' (demo_run @ [demo_precommit]) demo_pv demo_world =
     Return ([(None, MProposal ((demo_proposal 10 0 [9, 5])\<lparr>Proposal.Signature := Some [7, 9, 5]\<rparr>)),
              (None, MVote ((demo_vote 10 0 1 [9, 1, 1])\<lparr>Vote.Signature := Some [7, 9, 1, 1]\<rparr>)),
              (None, MVote ((demo_vote 10 0 2 [9, 1, 1])\<lparr>Vote.Signature := Some [7, 9, 1, 1]\<rparr>))],
             signed_state demo_pv 10 0 stepPrecommit (Some [9, 1, 1]) (Some [7, 9, 1, 1]),
             demo_world\<lparr>signer_calls := [Some [9, 5], Some [9, 1, 1], Some [9, 1, 1]],
                        files := (files demo_world)(''priv_validator.json'' := Some [3, 7])\<rparr>)"
proof -
  have a: "ahead_chain demo_ext (HRS demo_pv) (demo_run @ [demo_precommit])"
    by (simp add: demo_defs)
  have b: "\<forall>m' \<in> set (demo_run @ [demo_precommit]).
             snd (Signer demo_pv (msg_bytes demo_ext ''chain'' m')) = None"
    by (simp add: demo_defs)
  have c: "filePath demo_pv \<noteq> []"
    by (simp add: demo_defs)
  have d: "json_Marshal demo_ext j = Inr (demo_encode j)" for j
    by (simp add: demo_ext_def)
  have e: "write_error demo_world (filePath demo_pv) = None"
    by (simp add: demo_defs)
  show ?thesis
    using strictly_ahead_commits [OF a b c d e]
    by (simp add: demo_defs persisted_def bakPrivVal_def PrivValidatorJSON.truncate_def
          del: fun_upd_apply)
qed

text \<open>
  Claim C5. A call that reaches the Signer (\<^verbatim>\<open>checkHRS\<close> reports neither an error nor the
  same triple) and whose Signer returns an error gives that error back, wrapped in the
  prefix of the method; the message and the validator are unchanged and the world differs
  only by the recorded Signer call, so nothing is committed and no file is written. The
  same holds for a heartbeat, which always reaches the Signer: its error is returned as it
  is and the validator stays unchanged.
\<close>

theorem signer_failure_propagates:
  "(msg_step X m = Return s
      \<and> checkHRS pv (msg_height m) (msg_round m) s = Return (False, None)
      \<and> Signer pv (msg_bytes X c m) = (sig, Some e) \<longrightarrow>
      sign X c m pv w =
        Return (Some (msg_prefix m @ e), m, pv,
                w\<lparr>signer_calls := signer_calls w @ [msg_bytes X c m]\<rparr>))
   \<and> (Signer pv (SignBytesHeartbeat X c hb) = (sig', Some e') \<longrightarrow>
      SignHeartbeat X c hb pv w =
        Return (Some e', hb\<lparr>Heartbeat.Signature := sig'\<rparr>, pv,
                w\<lparr>signer_calls := signer_calls w @ [SignBytesHeartbeat X c hb]\<rparr>))"
  by (simp add: sign_eq signBytesHRS_ahead SignHeartbeat_def Let_def)

theorem signer_failure_propagates_witness:
  "sign demo_ext ''chain'' (MVote (demo_vote 10 0 1 [9, 1, 1]))
       (demo_pv\<lparr>Signer := demo_failing_signer\<rparr>) demo_world =
     Return (Some ''Error signing vote: device unplugged'', MVote (demo_vote 10 0 1 [9, 1, 1]),
             demo_pv\<lparr>Signer := demo_failing_signer\<rparr>,
             demo_world\<lparr>signer_calls := [Some [9, 1, 1]]\<rparr>)
   \<and> SignHeartbeat demo_ext ''chain'' demo_heartbeat
       (demo_pv\<lparr>Signer := demo_failing_signer\<rparr>) demo_world =
     Return (Some ''device unplugged'', demo_heartbeat,
             demo_pv\<lparr>Signer := demo_failing_signer\<rparr>,
             demo_world\<lparr>signer_calls := [Some [1, 2, 3]]\<rparr>)"
  using signer_failure_propagates [where X = demo_ext and c = "''chain''"
      and m = "MVote (demo_vote 10 0 1 [9, 1, 1])" and s = stepPrevote
      and pv = "demo_pv\<lparr>Signer := demo_failing_signer\<rparr>" and w = demo_world
      and sig = None and e = "''device unplugged''" and hb = demo_heartbeat
      and sig' = None and e' = "''device unplugged''"]
  by (simp add: demo_defs checkHRS_def)

text \<open>
  Claim C6, as amended. Under the signing methods the triple never goes down: after
  \<^verbatim>\<open>SignVote\<close> or \<^verbatim>\<open>SignProposal\<close>, returning or panicking, it is at least what it was
  in the lexicographic signed order; \<^verbatim>\<open>SignHeartbeat\<close> and \<^verbatim>\<open>Save\<close> leave the validator as
  it is. \<^verbatim>\<open>Reset\<close> and \<^verbatim>\<open>ModifyLastHeight\<close> overwrite the triple with \<open>(0, 0, 0)\<close> and
  \<open>(h, 0, 3)\<close> whatever it was.
\<close>

theorem hrs_monotone_under_signing:
  "(sign X c m pv w = Return (e, m', pv', w') \<longrightarrow> hrs_le (HRS pv) (HRS pv'))
   \<and> (sign X c m pv w = Fatal f (pv', w') \<longrightarrow> hrs_le (HRS pv) (HRS pv'))
   \<and> (SignHeartbeat X c hb pv w = Return (e1, hb1, pv1, w1) \<longrightarrow> pv1 = pv)
   \<and> (Save X pv w = Return (pv2, w2) \<longrightarrow> pv2 = pv)
   \<and> (Reset X pv w = Return (pv3, w3) \<longrightarrow> HRS pv3 = (0, 0, 0))
   \<and> (ModifyLastHeight X h pv w = Return (pv4, w4) \<longrightarrow> HRS pv4 = (h, 0, 3))"
proof (intro conjI impI)
  assume "sign X c m pv w = Return (e, m', pv', w')"
  then show "hrs_le (HRS pv) (HRS pv')"
    using sign_state by blast
next
  assume "sign X c m pv w = Fatal f (pv', w')"
  then show "hrs_le (HRS pv) (HRS pv')"
    using sign_state by blast
next
  assume "SignHeartbeat X c hb pv w = Return (e1, hb1, pv1, w1)"
  then show "pv1 = pv"
    by (auto simp: SignHeartbeat_def Let_def split: prod.splits)
next
  assume "Save X pv w = Return (pv2, w2)"
  then show "pv2 = pv"
    by (simp add: Save_def save_state)
next
  assume "Reset X pv w = Return (pv3, w3)"
  then show "HRS pv3 = (0, 0, 0)"
    by (auto simp: Reset_def Save_def HRS_def dest!: save_state(1))
next
  assume "ModifyLastHeight X h pv w = Return (pv4, w4)"
  then show "HRS pv4 = (h, 0, 3)"
    by (auto simp: ModifyLastHeight_def Save_def HRS_def dest!: save_state(1))
qed

theorem hrs_monotone_under_signing_witness:
  "sign demo_ext ''chain'' demo_precommit demo_signed demo_world =
     Return (None, MVote ((demo_vote 10 0 2 [9, 1, 1])\<lparr>Vote.Signature := Some [7, 9, 1, 1]\<rparr>),
             signed_state demo_pv 10 0 stepPrecommit (Some [9, 1, 1]) (Some [7, 9, 1, 1]),
             demo_world\<lparr>signer_calls := [Some [9, 1, 1]],
                        files := (files demo_world)(''priv_validator.json'' := Some [3, 7])\<rparr>)
   \<and> hrs_le (HRS demo_signed)
         (HRS (signed_state demo_pv 10 0 stepPrecommit (Some [9, 1, 1]) (Some [7, 9, 1, 1])))"
proof -
  have a: "sign demo_ext ''chain'' demo_precommit demo_signed demo_world =
     Return (None, MVote ((demo_vote 10 0 2 [9, 1, 1])\<lparr>Vote.Signature := Some [7, 9, 1, 1]\<rparr>),
             signed_state demo_pv 10 0 stepPrecommit (Some [9, 1, 1]) (Some [7, 9, 1, 1]),
             demo_world\<lparr>signer_calls := [Some [9, 1, 1]],
                        files := (files demo_world)(''priv_validator.json'' := Some [3, 7])\<rparr>)"
    by (simp add: demo_defs SignVote_def signBytesHRS_def checkHRS_def saveSigned_def save_def
          bakPrivVal_def WriteFileAtomic_def PrivValidatorJSON.truncate_def del: fun_upd_apply)
  with hrs_monotone_under_signing [where X = demo_ext and c = "''chain''"
      and m = demo_precommit and pv = demo_signed and w = demo_world and e = None
      and m' = "MVote ((demo_vote 10 0 2 [9, 1, 1])\<lparr>Vote.Signature := Some [7, 9, 1, 1]\<rparr>)"
      and pv' = "signed_state demo_pv 10 0 stepPrecommit (Some [9, 1, 1]) (Some [7, 9, 1, 1])"
      and w' = "demo_world\<lparr>signer_calls := [Some [9, 1, 1]],
                        files := (files demo_world)(''priv_validator.json'' := Some [3, 7])\<rparr>"]
  show ?thesis by blast
qed

text \<open>
  Claim C6 as stated, for every operation of the guard, fails on \<^verbatim>\<open>Reset\<close>: a validator
  that signed at height 10 is back at \<open>(0, 0, 0)\<close>.
\<close>

theorem Reset_lowers_hrs:
  "Reset demo_ext demo_signed demo_world =
     Return (demo_signed\<lparr>LastHeight := 0, LastRound := 0, LastStep := 0,
                          LastSignature := None, LastSignBytes := None\<rparr>,
             demo_world\<lparr>files := (files demo_world)(''priv_validator.json'' := Some [0, 7])\<rparr>)
   \<and> \<not> hrs_le (HRS demo_signed)
           (HRS (demo_signed\<lparr>LastHeight := 0, LastRound := 0, LastStep := 0,
                               LastSignature := None, LastSignBytes := None\<rparr>))"
  by (simp add: demo_defs Reset_def Save_def save_def bakPrivVal_def WriteFileAtomic_def
        PrivValidatorJSON.truncate_def hrs_le_def del: fun_upd_apply)

text \<open>
  Claim C7. When the file can be saved, \<^verbatim>\<open>ModifyLastHeight h\<close> returns the validator with
  height \<open>h\<close>, round 0, step 3 (Precommit), no signature and no sign bytes, and the file
  holds the encoding of that state. From there every prevote at height \<open>h\<close>, round 0 is
  refused with "Step regression" and changes nothing, and every proposal at height
  \<open>h + 1\<close>, round 0 on which the Signer succeeds is signed and committed. The height
  \<open>h + 1\<close> is a height above \<open>h\<close>: \<open>h\<close> is not the largest 64-bit value.
\<close>

theorem ModifyLastHeight_pins_step:
  assumes path: "filePath pv \<noteq> []"
    and marshal: "\<And>j. json_Marshal X j = Inr (enc j)"
    and wok: "write_error w (filePath pv) = None"
  shows "\<exists>pv' w'.
           ModifyLastHeight X h pv w = Return (pv', w')
         \<and> pv' = pv\<lparr>LastHeight := h, LastRound := 0, LastStep := stepPrecommit,
                      LastSignature := None, LastSignBytes := None\<rparr>
         \<and> w' = w\<lparr>files := (files w)(filePath pv := Some (enc (persisted pv')))\<rparr>
         \<and> (\<forall>vote. Type vote = VoteTypePrevote X \<and> Vote.Height vote = h \<and> Vote.Round vote = 0 \<longrightarrow>
               SignVote X c vote pv' w' =
                 Return (Some ''Error signing vote: Step regression'', vote, pv', w'))
         \<and> (\<forall>proposal. Proposal.Height proposal = h + 1 \<and> h <s h + 1
                 \<and> Proposal.Round proposal = 0
                 \<and> snd (Signer pv (SignBytesProposal X c proposal)) = None \<longrightarrow>
               SignProposal X c proposal pv' w' =
                 Return (None,
                   proposal\<lparr>Proposal.Signature := fst (Signer pv (SignBytesProposal X c proposal))\<rparr>,
                   signed_state pv' (h + 1) 0 stepPropose (SignBytesProposal X c proposal)
                     (fst (Signer pv (SignBytesProposal X c proposal))),
                   w'\<lparr>signer_calls := signer_calls w' @ [SignBytesProposal X c proposal],
                      files := (files w')(filePath pv := Some (enc (persisted
                        (signed_state pv' (h + 1) 0 stepPropose (SignBytesProposal X c proposal)
                           (fst (Signer pv (SignBytesProposal X c proposal)))))))\<rparr>))"
proof -
  let ?pv = "pv\<lparr>LastHeight := h, LastRound := 0, LastStep := stepPrecommit,
                LastSignature := None, LastSignBytes := None\<rparr>"
  let ?w = "w\<lparr>files := (files w)(filePath pv := Some (enc (persisted ?pv)))\<rparr>"
  have mod: "ModifyLastHeight X h pv w = Return (?pv, ?w)"
    using ModifyLastHeight_ok [OF path _ wok, of X h "enc (persisted ?pv)"] marshal
    by (simp add: stepPrecommit_def)
  have prevote_rejected: "SignVote X c vote ?pv ?w =
      Return (Some ''Error signing vote: Step regression'', vote, ?pv, ?w)"
    if v: "Type vote = VoteTypePrevote X \<and> Vote.Height vote = h \<and> Vote.Round vote = 0" for vote
  proof -
    have st: "voteToStep X vote = Return stepPrevote"
      using v by (simp add: voteToStep_def)
    have "stepPrevote <s LastStep ?pv"
      by (simp add: stepPrevote_def stepPrecommit_def)
    then have "checkHRS ?pv (Vote.Height vote) (Vote.Round vote) stepPrevote
        = Return (False, Some ''Step regression'')"
      using v by (simp add: checkHRS_step)
    then show ?thesis
      by (simp add: SignVote_eq [OF st] signBytesHRS_error)
  qed
  have proposal_ok: "SignProposal X c proposal ?pv ?w =
      Return (None,
        proposal\<lparr>Proposal.Signature := fst (Signer pv (SignBytesProposal X c proposal))\<rparr>,
        signed_state ?pv (h + 1) 0 stepPropose (SignBytesProposal X c proposal)
          (fst (Signer pv (SignBytesProposal X c proposal))),
        ?w\<lparr>signer_calls := signer_calls ?w @ [SignBytesProposal X c proposal],
           files := (files ?w)(filePath pv := Some (enc (persisted
             (signed_state ?pv (h + 1) 0 stepPropose (SignBytesProposal X c proposal)
                (fst (Signer pv (SignBytesProposal X c proposal)))))))\<rparr>)"
    if p: "Proposal.Height proposal = h + 1 \<and> h <s h + 1 \<and> Proposal.Round proposal = 0
           \<and> snd (Signer pv (SignBytesProposal X c proposal)) = None" for proposal
  proof -
    have st: "msg_step X (MProposal proposal) = Return stepPropose"
      by simp
    have ahead: "hrs_less (HRS ?pv) (msg_height (MProposal proposal),
        msg_round (MProposal proposal), stepPropose)"
      using p by (simp add: HRS_def)
    have sg: "Signer ?pv (msg_bytes X c (MProposal proposal))
        = (fst (Signer pv (SignBytesProposal X c proposal)), None)"
      using p by (simp add: prod_eq_iff)
    have "sign X c (MProposal proposal) ?pv ?w =
      Return (None, msg_signed (MProposal proposal) (fst (Signer pv (SignBytesProposal X c proposal))),
        signed_state ?pv (msg_height (MProposal proposal)) (msg_round (MProposal proposal))
          stepPropose (msg_bytes X c (MProposal proposal))
          (fst (Signer pv (SignBytesProposal X c proposal))),
        ?w\<lparr>signer_calls := signer_calls ?w @ [msg_bytes X c (MProposal proposal)],
           files := (files ?w)(filePath ?pv := Some (enc (persisted
             (signed_state ?pv (msg_height (MProposal proposal)) (msg_round (MProposal proposal))
                stepPropose (msg_bytes X c (MProposal proposal))
                (fst (Signer pv (SignBytesProposal X c proposal)))))))\<rparr>)"
      by (rule sign_ahead [OF st ahead sg _ marshal]) (simp_all add: path wok)
    then show ?thesis
      using p by (auto simp del: fun_upd_apply split: outcome.splits)
  qed
  show ?thesis
    using mod prevote_rejected proposal_ok by (intro exI conjI allI impI) (assumption | rule refl)+
qed

theorem ModifyLastHeight_pins_step_witness:
  "ModifyLastHeight demo_ext 20 demo_pv demo_world =
     Return (demo_forwarded,
             demo_world\<lparr>files := (files demo_world)(''priv_validator.json'' := Some [3, 7])\<rparr>)
   \<and> SignVote demo_ext ''chain'' (demo_vote 20 0 1 [9, 1, 1]) demo_forwarded
         (demo_world\<lparr>files := (files demo_world)(''priv_validator.json'' := Some [3, 7])\<rparr>) =
     Return (Some ''Error signing vote: Step regression'', demo_vote 20 0 1 [9, 1, 1],
             demo_forwarded,
             demo_world\<lparr>files := (files demo_world)(''priv_validator.json'' := Some [3, 7])\<rparr>)
   \<and> SignProposal demo_ext ''chain'' (demo_proposal 21 0 [9, 5]) demo_forwarded
         (demo_world\<lparr>files := (files demo_world)(''priv_validator.json'' := Some [3, 7])\<rparr>) =
     Return (None, (demo_proposal 21 0 [9, 5])\<lparr>Proposal.Signature := Some [7, 9, 5]\<rparr>,
             signed_state demo_pv 21 0 stepPropose (Some [9, 5]) (Some [7, 9, 5]),
             demo_world\<lparr>signer_calls := [Some [9, 5]],
                        files := (files demo_world)(''priv_validator.json'' := Some [1, 7])\<rparr>)"
proof -
  have a: "filePath demo_pv \<noteq> []"
    by (simp add: demo_defs)
  have b: "json_Marshal demo_ext j = Inr (demo_encode j)" for j
    by (simp add: demo_ext_def)
  have c: "write_error demo_world (filePath demo_pv) = None"
    by (simp add: demo_defs)
  have d: "Type (demo_vote 20 0 1 [9, 1, 1]) = VoteTypePrevote demo_ext
      \<and> Vote.Height (demo_vote 20 0 1 [9, 1, 1]) = 20 \<and> Vote.Round (demo_vote 20 0 1 [9, 1, 1]) = 0"
    by (simp add: demo_defs)
  have e: "Proposal.Height (demo_proposal 21 0 [9, 5]) = 20 + 1 \<and> (20 :: int64) <s 20 + 1
      \<and> Proposal.Round (demo_proposal 21 0 [9, 5]) = 0
      \<and> snd (Signer demo_pv (SignBytesProposal demo_ext ''chain'' (demo_proposal 21 0 [9, 5]))) = None"
    by (simp add: demo_defs)
  from ModifyLastHeight_pins_step [OF a b c, of 20 "''chain''"] d e
  show ?thesis
    by (auto simp: demo_defs persisted_def bakPrivVal_def PrivValidatorJSON.truncate_def
          simp del: fun_upd_apply)
qed

text \<open>
  Claim C8. \<^verbatim>\<open>SignHeartbeat\<close> always returns: it calls the Signer on the canonical bytes of
  the heartbeat, stores the Signer's signature in the heartbeat and returns the Signer's
  error, or none. It neither reads nor changes the validator, and the world differs only
  by the recorded Signer call: no file is written.
\<close>

theorem SignHeartbeat_unconditional:
  "SignHeartbeat X c hb pv w =
     Return (snd (Signer pv (SignBytesHeartbeat X c hb)),
             hb\<lparr>Heartbeat.Signature := fst (Signer pv (SignBytesHeartbeat X c hb))\<rparr>,
             pv,
             w\<lparr>signer_calls := signer_calls w @ [SignBytesHeartbeat X c hb]\<rparr>)"
  by (simp add: SignHeartbeat_def Let_def split: prod.splits)

theorem SignHeartbeat_unconditional_witness:
  "SignHeartbeat demo_ext ''chain'' demo_heartbeat demo_signed demo_world =
     Return (None, demo_heartbeat\<lparr>Heartbeat.Signature := Some [7, 1, 2, 3]\<rparr>, demo_signed,
             demo_world\<lparr>signer_calls := [Some [1, 2, 3]]\<rparr>)"
  using SignHeartbeat_unconditional [of demo_ext "''chain''" demo_heartbeat demo_signed demo_world]
  by (simp add: demo_defs)

text \<open>
  Claim C9. Saving a validator whose old private key is not empty writes, to its file
  path, the encoding of the validator with the old key in place of the current one; the
  validator itself comes back unchanged, its current key included. The old key is the key
  generated or loaded (\<open>GenPrivValidatorFS_keys\<close>, \<open>LoadPrivValidatorFSWithSigner_keys\<close>).
  The file path is set and the encoder and the atomic write report no error.
\<close>

theorem save_escrows_old_key:
  assumes "\<not> Empty (oldPrivKey pv)"
    and "filePath pv \<noteq> []"
    and "json_Marshal X (PrivValidatorJSON.truncate (pv\<lparr>PrivKey := oldPrivKey pv\<rparr>)) = Inr d"
    and "write_error w (filePath pv) = None"
  shows "save X pv w = Return (pv, w\<lparr>files := (files w)(filePath pv := Some d)\<rparr>)"
proof -
  have "persisted pv = PrivValidatorJSON.truncate (pv\<lparr>PrivKey := oldPrivKey pv\<rparr>)"
    using assms(1) by (simp add: persisted_def bakPrivVal_def)
  with assms(3) have "json_Marshal X (persisted pv) = Inr d"
    by simp
  from save_ok [OF assms(2) this assms(4)] show ?thesis .
qed

theorem save_escrows_old_key_witness:
  "save demo_ext (demo_pv\<lparr>PrivKey := None\<rparr>) demo_world =
     Return (demo_pv\<lparr>PrivKey := None\<rparr>,
             demo_world\<lparr>files := (files demo_world)(''priv_validator.json'' := Some [0, 7])\<rparr>)"
proof -
  have a: "\<not> Empty (oldPrivKey (demo_pv\<lparr>PrivKey := None\<rparr>))"
    by (simp add: demo_defs)
  have b: "filePath (demo_pv\<lparr>PrivKey := None\<rparr>) \<noteq> []"
    by (simp add: demo_defs)
  have c: "json_Marshal demo_ext (PrivValidatorJSON.truncate
      ((demo_pv\<lparr>PrivKey := None\<rparr>)\<lparr>PrivKey := oldPrivKey (demo_pv\<lparr>PrivKey := None\<rparr>)\<rparr>)) = Inr [0, 7]"
    by (simp add: demo_defs PrivValidatorJSON.truncate_def)
  have d: "write_error demo_world (filePath (demo_pv\<lparr>PrivKey := None\<rparr>)) = None"
    by (simp add: demo_defs)
  have e: "filePath (demo_pv\<lparr>PrivKey := None\<rparr>) = ''priv_validator.json''"
    by (simp add: demo_defs)
  from save_escrows_old_key [OF a b c d] e show ?thesis
    by simp
qed

text \<open>
  Claim C10. A vote whose type is neither the prevote nor the precommit constant makes
  \<^verbatim>\<open>SignVote\<close> panic with the sanity failure "Unknown vote type". The validator and the
  world are at the panic as they were before the call: no triple was checked, the Signer
  was not called, no error value is returned.
\<close>

theorem unknown_vote_type_panics:
  assumes "Type vote \<noteq> VoteTypePrevote X"
    and "Type vote \<noteq> VoteTypePrecommit X"
  shows "SignVote X c vote pv w = Fatal (PanicSanity ''Unknown vote type'') (pv, w)"
  using assms by (simp add: SignVote_def voteToStep_def)

theorem unknown_vote_type_panics_witness:
  "SignVote demo_ext ''chain'' (demo_vote 10 0 7 [9, 1, 1]) demo_pv demo_world =
     Fatal (PanicSanity ''Unknown vote type'') (demo_pv, demo_world)"
proof -
  have a: "Type (demo_vote 10 0 7 [9, 1, 1]) \<noteq> VoteTypePrevote demo_ext"
    "Type (demo_vote 10 0 7 [9, 1, 1]) \<noteq> VoteTypePrecommit demo_ext"
    by (simp_all add: demo_defs)
  from unknown_vote_type_panics [OF a] show ?thesis .
qed

end
